theory Spec2Isabelle
  imports Complex_Main "HOL-Library.Word"
begin

section \<open>Values of the program\<close>

text \<open>
  The pipeline of \<^verbatim>\<open>img_processing.py\<close> passes numpy arrays of \<^verbatim>\<open>uint8\<close> pixels
  between OpenCV calls. An array is modelled by its shape and its pixel buffer. Python is
  dynamically typed, and the source rebinds the variable \<^verbatim>\<open>img\<close> to values of
  different classes, so a variable holds a \<open>pyval\<close>: \<^verbatim>\<open>None\<close> (what
  \<^verbatim>\<open>cv2.imdecode\<close> returns for bytes that are no image), an array, or the operator
  object made by \<^verbatim>\<open>cv2.createCLAHE\<close>.
\<close>

type_synonym byte = "8 word"

record image =
  height :: nat
  width :: nat
  channels :: nat
  pixels :: "byte list"

datatype pyval =
  PyNone
| NdArray image
| ClaheObj real "nat \<times> nat"

text \<open>
  Exceptions are values. \<open>Cv2Error f\<close> is the exception the OpenCV binding raises in
  the call of \<open>f\<close> (an argument that is no array, or an array with a channel count
  the function rejects); \<open>RequestsError\<close> is a failed download; \<open>AttributeError\<close> is
  a method looked up on an object that has none of that name; \<open>TelegramError\<close> is a
  failed edit of the status message in the chat.
\<close>

datatype py_error =
  RequestsError
| Cv2Error string
| AttributeError string
| TelegramError

definition bind_err :: "py_error + 'a \<Rightarrow> ('a \<Rightarrow> py_error + 'b) \<Rightarrow> py_error + 'b" where
  "bind_err m f = (case m of Inl e \<Rightarrow> Inl e | Inr x \<Rightarrow> f x)"

type_synonym affine = "(real \<times> real \<times> real) \<times> (real \<times> real \<times> real)"

datatype interpolation = INTER_NEAREST | INTER_LINEAR | INTER_CUBIC | INTER_AREA

datatype border_mode = BORDER_CONSTANT | BORDER_REPLICATE | BORDER_REFLECT | BORDER_WRAP

section \<open>The library under the program\<close>

text \<open>
  OpenCV, numpy and requests are not part of the repository. What they compute on the
  pixels is a parameter of the model: a record of functions, one for each library call of
  the source. The shape of each result and the argument checks of the Python binding are
  written out in the wrappers below, because the control flow of the program depends on
  them.

  The angles of the program are numpy \<^verbatim>\<open>float32\<close> numbers: a number is the real it
  denotes, and every arithmetic operation of the program on them rounds its exact result
  with \<open>f32\<close>, the rounding to the nearest \<^verbatim>\<open>float32\<close>, which is a parameter too. The
  matrix of \<^verbatim>\<open>cv2.getRotationMatrix2D\<close> is the one of OpenCV's documentation, over the
  reals.
\<close>

record cv2_lib =
  http_get :: "string \<Rightarrow> byte list option"
  decode_px :: "byte list \<Rightarrow> (nat \<times> nat \<times> byte list) option"
  f32 :: "real \<Rightarrow> real"
  gray_px :: "image \<Rightarrow> byte list"
  canny_px :: "image \<Rightarrow> real \<Rightarrow> real \<Rightarrow> nat \<Rightarrow> byte list"
  hough :: "image \<Rightarrow> real \<Rightarrow> real \<Rightarrow> nat \<Rightarrow> (real \<times> real) list"
  warp_px :: "image \<Rightarrow> affine option \<Rightarrow> nat \<times> nat \<Rightarrow> interpolation \<Rightarrow> border_mode \<Rightarrow> byte list"
  equalize_px :: "image \<Rightarrow> byte list"
  threshold_px :: "image \<Rightarrow> real \<Rightarrow> real \<Rightarrow> nat \<Rightarrow> real \<times> byte list"
  denoise_px :: "image \<Rightarrow> byte list"
  clahe_px :: "real \<Rightarrow> nat \<times> nat \<Rightarrow> image \<Rightarrow> byte list"
  filter2D_px :: "image \<Rightarrow> int list list \<Rightarrow> byte list"
  dilate_px :: "image \<Rightarrow> nat list list \<Rightarrow> nat \<Rightarrow> byte list"
  gaussian_px :: "image \<Rightarrow> nat \<times> nat \<Rightarrow> real \<Rightarrow> byte list"
  png_bytes :: "image \<Rightarrow> byte list"

text \<open>A result with the shape of \<open>a\<close>, a given channel count and new pixels.\<close>

definition reshaped :: "image \<Rightarrow> nat \<Rightarrow> byte list \<Rightarrow> image" where
  "reshaped a c px = \<lparr>height = height a, width = width a, channels = c, pixels = px\<rparr>"

text \<open>
  \<^verbatim>\<open>cv2.cvtColor(img, cv2.COLOR_BGR2GRAY)\<close>: the source must have 3 or 4 channels, the
  result has one. Any other argument raises.
\<close>

definition cvtColor_BGR2GRAY :: "cv2_lib \<Rightarrow> pyval \<Rightarrow> py_error + pyval" where
  "cvtColor_BGR2GRAY L v =
     (case v of
        NdArray a \<Rightarrow>
          if channels a = 3 \<or> channels a = 4
          then Inr (NdArray (reshaped a 1 (gray_px L a)))
          else Inl (Cv2Error ''cvtColor'')
      | _ \<Rightarrow> Inl (Cv2Error ''cvtColor''))"

text \<open>
  The binding turns \<^verbatim>\<open>None\<close> into an empty matrix of type \<^verbatim>\<open>CV_8UC1\<close>. A function
  that does not insist on a non-empty source computes on it and returns an empty matrix,
  which comes back as \<^verbatim>\<open>None\<close>.
\<close>

definition empty_mat :: image where
  "empty_mat = \<lparr>height = 0, width = 0, channels = 1, pixels = []\<rparr>"

text \<open>
  \<^verbatim>\<open>cv2.Canny(gray, 50, 150, apertureSize=3)\<close>: an 8-bit image of any channel count
  gives a single-channel edge map; \<^verbatim>\<open>None\<close> gives \<^verbatim>\<open>None\<close>.
\<close>

definition Canny :: "cv2_lib \<Rightarrow> pyval \<Rightarrow> real \<Rightarrow> real \<Rightarrow> nat \<Rightarrow> py_error + pyval" where
  "Canny L v lo hi aperture =
     (case v of
        NdArray a \<Rightarrow> Inr (NdArray (reshaped a 1 (canny_px L a lo hi aperture)))
      | PyNone \<Rightarrow> Inr PyNone
      | ClaheObj clip grid \<Rightarrow> Inl (Cv2Error ''Canny''))"

text \<open>
  \<^verbatim>\<open>cv2.HoughLines(edges, rho, theta, threshold)\<close> returns the detected lines as pairs
  (distance, angle in radians); the Python binding returns \<^verbatim>\<open>None\<close>, not an empty
  array, when no line reaches the vote threshold.
\<close>

definition HoughLines ::
  "cv2_lib \<Rightarrow> pyval \<Rightarrow> real \<Rightarrow> real \<Rightarrow> nat \<Rightarrow> py_error + (real \<times> real) list option" where
  "HoughLines L v rho theta votes =
     (case v of
        NdArray a \<Rightarrow>
          if channels a = 1
          then (case hough L a rho theta votes of [] \<Rightarrow> Inr None | l # ls \<Rightarrow> Inr (Some (l # ls)))
          else Inl (Cv2Error ''HoughLines'')
      | _ \<Rightarrow> Inl (Cv2Error ''HoughLines''))"

text \<open>
  \<^verbatim>\<open>np.degrees\<close> on a \<^verbatim>\<open>float32\<close>: the product with the \<^verbatim>\<open>float32\<close> constant
  \<^verbatim>\<open>180.0f / NPY_PIf\<close>, rounded.
\<close>

definition np_degrees :: "cv2_lib \<Rightarrow> real \<Rightarrow> real" where
  "np_degrees L x = f32 L (x * f32 L (180 / f32 L pi))"

text \<open>
  \<^verbatim>\<open>np.median\<close> on a list of \<^verbatim>\<open>float32\<close>: the middle one of the sorted values when
  their number is odd, the \<^verbatim>\<open>float32\<close> mean of the two middle ones when it is even,
  and \<^verbatim>\<open>nan\<close> (here \<open>None\<close>) for the empty list.
\<close>

definition np_median :: "cv2_lib \<Rightarrow> real list \<Rightarrow> real option" where
  "np_median L xs =
     (let s = sort xs; n = length s in
      if n = 0 then None
      else if odd n then Some (s ! (n div 2))
      else Some (f32 L (f32 L (s ! (n div 2 - 1) + s ! (n div 2)) / 2)))"

text \<open>\<^verbatim>\<open>img.shape[:2]\<close>: only an array has a shape.\<close>

definition shape2 :: "pyval \<Rightarrow> py_error + nat \<times> nat" where
  "shape2 v = (case v of NdArray a \<Rightarrow> Inr (height a, width a) | _ \<Rightarrow> Inl (AttributeError ''shape''))"

text \<open>
  \<^verbatim>\<open>cv2.getRotationMatrix2D(center, angle, scale)\<close>, angle in degrees, as OpenCV
  documents it: with \<open>\<alpha> = scale * cos angle\<close> and \<open>\<beta> = scale * sin angle\<close> the matrix is
  \<open>[[\<alpha>, \<beta>, (1 - \<alpha>) * cx - \<beta> * cy], [- \<beta>, \<alpha>, \<beta> * cx + (1 - \<alpha>) * cy]]\<close>. Every
  entry depends on the angle, so the angle \<^verbatim>\<open>nan\<close> gives the matrix of \<^verbatim>\<open>nan\<close>s,
  here \<open>None\<close>.
\<close>

definition getRotationMatrix2D :: "real \<times> real \<Rightarrow> real option \<Rightarrow> real \<Rightarrow> affine option" where
  "getRotationMatrix2D center angle scale =
     (case angle of
        None \<Rightarrow> None
      | Some ang \<Rightarrow>
          (let cx = fst center; cy = snd center;
               a = scale * cos (ang * pi / 180);
               b = scale * sin (ang * pi / 180)
           in Some ((a, b, (1 - a) * cx - b * cy), (- b, a, b * cx + (1 - a) * cy))))"

text \<open>Applying an affine matrix to a point, and its linear part to a vector.\<close>

definition affine_apply :: "affine \<Rightarrow> real \<times> real \<Rightarrow> real \<times> real" where
  "affine_apply M p =
     (case M of ((a, b, c), (d, e, f)) \<Rightarrow>
        (a * fst p + b * snd p + c, d * fst p + e * snd p + f))"

definition linear_apply :: "affine \<Rightarrow> real \<times> real \<Rightarrow> real \<times> real" where
  "linear_apply M p =
     (case M of ((a, b, c), (d, e, f)) \<Rightarrow> (a * fst p + b * snd p, d * fst p + e * snd p))"

text \<open>The rotation of the plane by \<open>phi\<close> degrees, in the pixel coordinates of the image.\<close>

definition rotation_deg :: "real \<Rightarrow> real \<times> real \<Rightarrow> real \<times> real" where
  "rotation_deg phi p =
     (cos (phi * pi / 180) * fst p - sin (phi * pi / 180) * snd p,
      sin (phi * pi / 180) * fst p + cos (phi * pi / 180) * snd p)"

text \<open>
  \<^verbatim>\<open>cv2.warpAffine(src, M, dsize, flags=..., borderMode=...)\<close>: the result has the size
  \<open>dsize = (width, height)\<close> and the channel count of the source.
\<close>

definition warpAffine ::
  "cv2_lib \<Rightarrow> pyval \<Rightarrow> affine option \<Rightarrow> nat \<times> nat \<Rightarrow> interpolation \<Rightarrow> border_mode \<Rightarrow> py_error + pyval" where
  "warpAffine L v M dsize flags borderMode =
     (case v of
        NdArray a \<Rightarrow>
          Inr (NdArray \<lparr>height = snd dsize, width = fst dsize, channels = channels a,
                        pixels = warp_px L a M dsize flags borderMode\<rparr>)
      | _ \<Rightarrow> Inl (Cv2Error ''warpAffine''))"

section \<open>The orientation corrector\<close>

text \<open>The body of the loop over the detected lines (source lines 51 and 52).\<close>

definition line_angle :: "cv2_lib \<Rightarrow> real \<times> real \<Rightarrow> real" where
  "line_angle L line = (case line of (rho, theta) \<Rightarrow> f32 L (np_degrees L theta - 90))"

definition rotate_image_to_center :: "cv2_lib \<Rightarrow> pyval \<Rightarrow> py_error + pyval" where
  "rotate_image_to_center L img =
     bind_err (cvtColor_BGR2GRAY L img) (\<lambda>gray.
     bind_err (Canny L gray 50 150 3) (\<lambda>edges.
     bind_err (HoughLines L edges 1 (pi / 180) 200) (\<lambda>lines.
       case lines of
         Some ls \<Rightarrow>
           (let angles = map (line_angle L) ls;
                median_angle = np_median L angles
            in bind_err (shape2 img) (\<lambda>(h, w).
               let center = (real (w div 2), real (h div 2));
                   rotation_matrix = getRotationMatrix2D center median_angle 1.0
               in bind_err (warpAffine L img rotation_matrix (w, h) INTER_CUBIC BORDER_REPLICATE)
                    (\<lambda>rotated. Inr rotated)))
       | None \<Rightarrow> Inr img)))"

section \<open>Files and the clock\<close>

text \<open>
  The file system is the list of the directories and the list of the image files written,
  in the order of the writes. Paths are POSIX paths. Permissions and the space left on
  the disk are not modelled.
\<close>

record fs =
  dirs :: "string list"
  files :: "(string \<times> image) list"

type_synonym 'a io = "fs \<Rightarrow> (py_error + 'a) \<times> fs"

definition bind_io :: "'a io \<Rightarrow> ('a \<Rightarrow> 'b io) \<Rightarrow> 'b io" where
  "bind_io m f s = (case m s of (Inl e, s') \<Rightarrow> (Inl e, s') | (Inr x, s') \<Rightarrow> f x s')"

definition pure_io :: "py_error + 'a \<Rightarrow> 'a io" where
  "pure_io r s = (r, s)"

text \<open>\<^verbatim>\<open>try: body except Exception as e: handler\<close>; what the body wrote stays written.\<close>

definition try_except :: "'a io \<Rightarrow> (py_error \<Rightarrow> 'a io) \<Rightarrow> 'a io" where
  "try_except body handler s =
     (case body s of (Inl e, s') \<Rightarrow> handler e s' | (Inr x, s') \<Rightarrow> (Inr x, s'))"

definition path_exists :: "fs \<Rightarrow> string \<Rightarrow> bool" where
  "path_exists s p = (p \<in> set (dirs s) \<or> p \<in> set (map fst (files s)))"

definition makedirs :: "string \<Rightarrow> fs \<Rightarrow> fs" where
  "makedirs p s = s\<lparr>dirs := dirs s @ [p]\<rparr>"

text \<open>\<^verbatim>\<open>os.path.join(d, f)\<close> and \<^verbatim>\<open>os.path.dirname(p)\<close> of \<^verbatim>\<open>posixpath\<close>.\<close>

definition os_path_join :: "string \<Rightarrow> string \<Rightarrow> string" where
  "os_path_join d f =
     (if f \<noteq> [] \<and> hd f = CHR ''/'' then f
      else if d = [] \<or> last d = CHR ''/'' then d @ f
      else d @ ''/'' @ f)"

definition dirname :: "string \<Rightarrow> string" where
  "dirname p =
     (let head = rev (dropWhile (\<lambda>c. c \<noteq> CHR ''/'') (rev p));
          stripped = rev (dropWhile (\<lambda>c. c = CHR ''/'') (rev head))
      in if stripped = [] then head else stripped)"

text \<open>The directory of a relative file name is the working directory, which exists.\<close>

definition dir_exists :: "fs \<Rightarrow> string \<Rightarrow> bool" where
  "dir_exists s d = (d = [] \<or> d = ''/'' \<or> d \<in> set (dirs s))"

definition ensure_output_dir :: "string io" where
  "ensure_output_dir s =
     (let output_dir = ''processed_images'' in
      (Inr output_dir, if \<not> path_exists s output_dir then makedirs output_dir s else s))"

text \<open>
  \<^verbatim>\<open>cv2.imwrite(path, img)\<close> raises when \<open>img\<close> is no array (\<^verbatim>\<open>None\<close> is
  an empty image to OpenCV), before anything is written. When the directory of the path
  does not exist it writes nothing and returns \<^verbatim>\<open>False\<close>, which the program ignores.
\<close>

definition imwrite :: "string \<Rightarrow> pyval \<Rightarrow> bool io" where
  "imwrite path v s =
     (case v of
        NdArray a \<Rightarrow>
          if dir_exists s (dirname path)
          then (Inr True, s\<lparr>files := files s @ [(path, a)]\<rparr>)
          else (Inr False, s)
      | _ \<Rightarrow> (Inl (Cv2Error ''imwrite''), s))"

text \<open>
  \<^verbatim>\<open>datetime.now().strftime("%Y%m%d_%H%M%S")\<close>. The fields of a \<^verbatim>\<open>datetime\<close> are
  in range (year 1 to 9999, month 1 to 12, and so on). \<^verbatim>\<open>%Y\<close> does not pad a year
  below 1000; the other fields have two digits.
\<close>

record datetime =
  year :: nat
  month :: nat
  day :: nat
  hour :: nat
  minute :: nat
  second :: nat

definition digit :: "nat \<Rightarrow> char" where
  "digit n = ''0123456789'' ! (n mod 10)"

definition pad2 :: "nat \<Rightarrow> string" where
  "pad2 n = [digit (n div 10), digit n]"

definition pad4 :: "nat \<Rightarrow> string" where
  "pad4 n = [digit (n div 1000), digit (n div 100), digit (n div 10), digit n]"

definition year_digits :: "nat \<Rightarrow> string" where
  "year_digits n =
     (if n < 10 then [digit n]
      else if n < 100 then [digit (n div 10), digit n]
      else if n < 1000 then [digit (n div 100), digit (n div 10), digit n]
      else pad4 n)"

definition strftime :: "datetime \<Rightarrow> string" where
  "strftime t =
     year_digits (year t) @ pad2 (month t) @ pad2 (day t) @ ''_'' @
     pad2 (hour t) @ pad2 (minute t) @ pad2 (second t)"

section \<open>The stages of the enhancement pipeline\<close>

text \<open>\<^verbatim>\<open>cv2.equalizeHist(src)\<close>: a single-channel array; \<^verbatim>\<open>None\<close> gives \<^verbatim>\<open>None\<close>.\<close>

definition equalizeHist :: "cv2_lib \<Rightarrow> pyval \<Rightarrow> py_error + pyval" where
  "equalizeHist L v =
     (case v of
        NdArray a \<Rightarrow>
          if channels a = 1
          then Inr (NdArray (reshaped a 1 (equalize_px L a)))
          else Inl (Cv2Error ''equalizeHist'')
      | PyNone \<Rightarrow> Inr PyNone
      | ClaheObj clip grid \<Rightarrow> Inl (Cv2Error ''equalizeHist''))"

definition THRESH_BINARY :: nat where
  "THRESH_BINARY = 0"

definition THRESH_OTSU :: nat where
  "THRESH_OTSU = 8"

text \<open>
  \<^verbatim>\<open>cv2.threshold(src, thresh, maxval, type)\<close> returns the pair of the threshold used
  and the result; with the Otsu flag the source must have one channel. \<^verbatim>\<open>None\<close> gives
  the threshold of the empty matrix and \<^verbatim>\<open>None\<close>.
\<close>

definition threshold ::
  "cv2_lib \<Rightarrow> pyval \<Rightarrow> real \<Rightarrow> real \<Rightarrow> nat \<Rightarrow> py_error + real \<times> pyval" where
  "threshold L v thresh maxval ttype =
     (case v of
        NdArray a \<Rightarrow>
          if ttype div THRESH_OTSU mod 2 = 1 \<and> channels a \<noteq> 1
          then Inl (Cv2Error ''threshold'')
          else Inr (fst (threshold_px L a thresh maxval ttype),
                    NdArray (reshaped a (channels a) (snd (threshold_px L a thresh maxval ttype))))
      | PyNone \<Rightarrow> Inr (fst (threshold_px L empty_mat thresh maxval ttype), PyNone)
      | ClaheObj clip grid \<Rightarrow> Inl (Cv2Error ''threshold''))"

definition fastNlMeansDenoising :: "cv2_lib \<Rightarrow> pyval \<Rightarrow> py_error + pyval" where
  "fastNlMeansDenoising L v =
     (case v of
        NdArray a \<Rightarrow> Inr (NdArray (reshaped a (channels a) (denoise_px L a)))
      | _ \<Rightarrow> Inl (Cv2Error ''fastNlMeansDenoising''))"

definition createCLAHE :: "real \<Rightarrow> nat \<times> nat \<Rightarrow> pyval" where
  "createCLAHE clipLimit tileGridSize = ClaheObj clipLimit tileGridSize"

text \<open>
  The method call \<^verbatim>\<open>obj.apply(src)\<close>: only the CLAHE operator has the method, and its
  argument must be a single-channel array (\<^verbatim>\<open>None\<close> gives \<^verbatim>\<open>None\<close>). An argument
  that is neither, such as the operator itself, raises.
\<close>

definition method_apply :: "cv2_lib \<Rightarrow> pyval \<Rightarrow> pyval \<Rightarrow> py_error + pyval" where
  "method_apply L obj src =
     (case obj of
        ClaheObj clip grid \<Rightarrow>
          (case src of
             NdArray a \<Rightarrow>
               if channels a = 1
               then Inr (NdArray (reshaped a 1 (clahe_px L clip grid a)))
               else Inl (Cv2Error ''apply'')
           | PyNone \<Rightarrow> Inr PyNone
           | ClaheObj clip' grid' \<Rightarrow> Inl (Cv2Error ''apply''))
      | _ \<Rightarrow> Inl (AttributeError ''apply''))"

definition filter2D :: "cv2_lib \<Rightarrow> pyval \<Rightarrow> int \<Rightarrow> int list list \<Rightarrow> py_error + pyval" where
  "filter2D L v ddepth kern =
     (case v of
        NdArray a \<Rightarrow> Inr (NdArray (reshaped a (channels a) (filter2D_px L a kern)))
      | _ \<Rightarrow> Inl (Cv2Error ''filter2D''))"

definition np_ones :: "nat \<Rightarrow> nat \<Rightarrow> nat list list" where
  "np_ones r c = replicate r (replicate c 1)"

definition dilate :: "cv2_lib \<Rightarrow> pyval \<Rightarrow> nat list list \<Rightarrow> nat \<Rightarrow> py_error + pyval" where
  "dilate L v kern iterations =
     (case v of
        NdArray a \<Rightarrow> Inr (NdArray (reshaped a (channels a) (dilate_px L a kern iterations)))
      | _ \<Rightarrow> Inl (Cv2Error ''dilate''))"

definition GaussianBlur :: "cv2_lib \<Rightarrow> pyval \<Rightarrow> nat \<times> nat \<Rightarrow> real \<Rightarrow> py_error + pyval" where
  "GaussianBlur L v ksize sigmaX =
     (case v of
        NdArray a \<Rightarrow> Inr (NdArray (reshaped a (channels a) (gaussian_px L a ksize sigmaX)))
      | _ \<Rightarrow> Inl (Cv2Error ''GaussianBlur''))"

section \<open>The enhancement pipeline\<close>

definition artifact :: "string \<Rightarrow> string \<Rightarrow> string \<Rightarrow> string" where
  "artifact output_dir timestamp label = os_path_join output_dir (timestamp @ ''_'' @ label @ ''.png'')"

definition process_image_for_ocr :: "cv2_lib \<Rightarrow> pyval \<Rightarrow> string \<Rightarrow> string \<Rightarrow> pyval io" where
  "process_image_for_ocr L img output_dir timestamp =
     bind_io (pure_io (rotate_image_to_center L img)) (\<lambda>img.
     bind_io (pure_io (cvtColor_BGR2GRAY L img)) (\<lambda>img.
     bind_io (imwrite (artifact output_dir timestamp ''1_gray'') img) (\<lambda>_.
     bind_io (pure_io (equalizeHist L img)) (\<lambda>img.
     bind_io (imwrite (artifact output_dir timestamp ''21_threshold'') img) (\<lambda>_.
     bind_io (pure_io (threshold L img 0 255 (THRESH_BINARY + THRESH_OTSU))) (\<lambda>ret.
     let img = snd ret in
     bind_io (imwrite (artifact output_dir timestamp ''2_threshold'') img) (\<lambda>_.
     bind_io (pure_io (fastNlMeansDenoising L img)) (\<lambda>img.
     bind_io (imwrite (artifact output_dir timestamp ''3_denoised'') img) (\<lambda>_.
     let img = createCLAHE 2.0 (8, 8) in
     bind_io (pure_io (method_apply L img img)) (\<lambda>enhanced.
     bind_io (imwrite (artifact output_dir timestamp ''4_enhanced'') img) (\<lambda>_.
     let kern = [[-1, -1, -1], [-1, 9, -1], [-1, -1, -1]] in
     bind_io (pure_io (filter2D L enhanced (-1) kern)) (\<lambda>sharpened.
     bind_io (imwrite (artifact output_dir timestamp ''5_sharpened'') sharpened) (\<lambda>_.
     let kern = np_ones 2 2 in
     bind_io (pure_io (dilate L sharpened kern 1)) (\<lambda>dilated.
     bind_io (imwrite (artifact output_dir timestamp ''6_dilated'') dilated) (\<lambda>_.
     bind_io (pure_io (GaussianBlur L dilated (3, 3) 0)) (\<lambda>final.
     bind_io (imwrite (artifact output_dir timestamp ''7_final'') final) (\<lambda>_.
     pure_io (Inr enhanced))))))))))))))))))"

section \<open>The orchestrator\<close>

text \<open>\<^verbatim>\<open>requests.get(url).content\<close>: a body of bytes, or an exception.\<close>

definition requests_get :: "cv2_lib \<Rightarrow> string \<Rightarrow> py_error + byte list" where
  "requests_get L url = (case http_get L url of None \<Rightarrow> Inl RequestsError | Some b \<Rightarrow> Inr b)"

text \<open>
  \<^verbatim>\<open>cv2.imdecode(buf, cv2.IMREAD_COLOR)\<close>: a 3-channel array, or \<^verbatim>\<open>None\<close> when the
  bytes are no image; an empty buffer raises.
\<close>

definition imdecode_color :: "cv2_lib \<Rightarrow> byte list \<Rightarrow> py_error + pyval" where
  "imdecode_color L buf =
     (if buf = [] then Inl (Cv2Error ''imdecode'')
      else case decode_px L buf of
        None \<Rightarrow> Inr PyNone
      | Some (h, w, px) \<Rightarrow> Inr (NdArray \<lparr>height = h, width = w, channels = 3, pixels = px\<rparr>))"

definition imencode_png :: "cv2_lib \<Rightarrow> pyval \<Rightarrow> py_error + bool \<times> byte list" where
  "imencode_png L v =
     (case v of
        NdArray a \<Rightarrow> Inr (True, png_bytes L a)
      | _ \<Rightarrow> Inl (Cv2Error ''imencode''))"

definition download_and_preprocess_image :: "cv2_lib \<Rightarrow> datetime \<Rightarrow> string \<Rightarrow> byte list io" where
  "download_and_preprocess_image L now image_url =
     bind_io ensure_output_dir (\<lambda>output_dir.
     let timestamp = strftime now in
     bind_io (pure_io (requests_get L image_url)) (\<lambda>content.
     bind_io (pure_io (imdecode_color L content)) (\<lambda>original_img.
     let original_path = artifact output_dir timestamp ''original'' in
     bind_io (imwrite original_path original_img) (\<lambda>_.
     bind_io (process_image_for_ocr L original_img output_dir timestamp) (\<lambda>processed.
     bind_io (pure_io (imencode_png L processed)) (\<lambda>(success, encoded_img).
     pure_io (Inr encoded_img)))))))"

section \<open>The caller\<close>

text \<open>
  The part of \<^verbatim>\<open>handle_photo\<close> (file \<^verbatim>\<open>cv_with_processing.py\<close>, lines 62 to 82) from
  the status message before the preprocessing to the choice of the request sent to the
  OCR service. The chat is a parameter: \<open>chat t\<close> tells whether the edit of the status
  message to the text \<open>t\<close> succeeds.
\<close>

datatype status_text =
  Preprocessing
| Enhanced string
| Preprocessing_error

datatype ocr_request =
  Read_in_stream "byte list"
| Read_url string

definition edit_text :: "(status_text \<Rightarrow> bool) \<Rightarrow> status_text \<Rightarrow> unit io" where
  "edit_text chat t = pure_io (if chat t then Inr () else Inl TelegramError)"

definition handle_photo_request ::
  "cv2_lib \<Rightarrow> (status_text \<Rightarrow> bool) \<Rightarrow> datetime \<Rightarrow> string \<Rightarrow> ocr_request io" where
  "handle_photo_request L chat now photo_url =
     bind_io (edit_text chat Preprocessing) (\<lambda>_.
     bind_io ensure_output_dir (\<lambda>output_dir.
     bind_io
       (try_except
          (bind_io (download_and_preprocess_image L now photo_url) (\<lambda>processed_image.
           bind_io (edit_text chat (Enhanced output_dir)) (\<lambda>_.
           pure_io (Inr (Some processed_image)))))
          (\<lambda>e. bind_io (edit_text chat Preprocessing_error) (\<lambda>_. pure_io (Inr None))))
       (\<lambda>processed_image.
          case processed_image of
            Some stream \<Rightarrow> pure_io (Inr (Read_in_stream stream))
          | None \<Rightarrow> pure_io (Inr (Read_url photo_url)))))"

section \<open>Notions used by the statements\<close>

text \<open>
  The line detection of the orientation corrector: the first three statements of
  \<open>rotate_image_to_center\<close> (source lines 41 to 45), up to the value bound to
  \<^verbatim>\<open>lines\<close>.
\<close>

definition line_candidates :: "cv2_lib \<Rightarrow> pyval \<Rightarrow> py_error + (real \<times> real) list option" where
  "line_candidates L img =
     bind_err (cvtColor_BGR2GRAY L img) (\<lambda>gray.
     bind_err (Canny L gray 50 150 3) (\<lambda>edges.
     HoughLines L edges 1 (pi / 180) 200))"

text \<open>An action that writes, whatever the state, no file with a path outside \<open>P\<close>.\<close>

definition writes_only :: "string set \<Rightarrow> 'a io \<Rightarrow> bool" where
  "writes_only P m = (\<forall>s. set (map fst (files (snd (m s)))) \<subseteq> set (map fst (files s)) \<union> P)"

section \<open>Concrete inputs\<close>

text \<open>
  A small library to run the program on. Two addresses serve the same three bytes, which
  decode to a white image of 2 by 2 pixels; a third address serves bytes that are no
  image. Rounding is exact. The line detection returns the list \<open>ls\<close> it is given. The
  warp resamples by the nearest neighbour: the pixel at (x, y) of the result is the pixel
  of the source at the point that the matrix maps to (x, y), rounded, and moved to the
  nearest pixel of the source when the border mode is replication; it is black for any
  other border mode or interpolation.
\<close>

definition clamp_index :: "real \<Rightarrow> nat \<Rightarrow> nat" where
  "clamp_index v n = nat (max 0 (min (int n - 1) (round v)))"

definition source_point :: "affine \<Rightarrow> real \<times> real \<Rightarrow> real \<times> real" where
  "source_point M p =
     (case M of ((a, b, c), (d, e, f)) \<Rightarrow>
        ((e * (fst p - c) - b * (snd p - f)) / (a * e - b * d),
         (a * (snd p - f) - d * (fst p - c)) / (a * e - b * d)))"

definition pixel_at :: "image \<Rightarrow> nat \<Rightarrow> nat \<Rightarrow> byte list" where
  "pixel_at a x y = take (channels a) (drop ((y * width a + x) * channels a) (pixels a))"

definition nearest_warp ::
  "image \<Rightarrow> affine option \<Rightarrow> nat \<times> nat \<Rightarrow> interpolation \<Rightarrow> border_mode \<Rightarrow> byte list" where
  "nearest_warp a M dsize flags borderMode =
     (case M of
        None \<Rightarrow> []
      | Some m \<Rightarrow>
          concat (map (\<lambda>y. concat (map (\<lambda>x.
            if flags = INTER_CUBIC \<and> borderMode = BORDER_REPLICATE
            then pixel_at a (clamp_index (fst (source_point m (real x, real y))) (width a))
                            (clamp_index (snd (source_point m (real x, real y))) (height a))
            else replicate (channels a) 0)
            [0..<fst dsize])) [0..<snd dsize]))"

definition demo_lib :: "(real \<times> real) list \<Rightarrow> cv2_lib" where
  "demo_lib ls =
     \<lparr>http_get = (\<lambda>url.
         if url = ''https://example.org/photo.jpg'' then Some [1, 2, 3]
         else if url = ''https://example.org/copy.jpg'' then Some [1, 2, 3]
         else if url = ''https://example.org/page.html'' then Some [60, 104]
         else None),
      decode_px = (\<lambda>buf.
         if buf = [1, 2, 3]
         then Some (2, 2, [255, 255, 255, 255, 255, 255, 255, 255, 255, 255, 255, 255])
         else None),
      f32 = (\<lambda>x. x),
      gray_px = (\<lambda>a. take (height a * width a) (pixels a)),
      canny_px = (\<lambda>a lo hi aperture. map (\<lambda>_. 0) (pixels a)),
      hough = (\<lambda>a rho theta votes. ls),
      warp_px = nearest_warp,
      equalize_px = pixels,
      threshold_px = (\<lambda>a thresh maxval ttype. (0, pixels a)),
      denoise_px = pixels,
      clahe_px = (\<lambda>clip grid a. pixels a),
      filter2D_px = (\<lambda>a k. pixels a),
      dilate_px = (\<lambda>a k iterations. pixels a),
      gaussian_px = (\<lambda>a ksize sigmaX. pixels a),
      png_bytes = pixels\<rparr>"

definition white_image :: image where
  "white_image =
     \<lparr>height = 2, width = 2, channels = 3,
      pixels = [255, 255, 255, 255, 255, 255, 255, 255, 255, 255, 255, 255]\<rparr>"

text \<open>An image whose four pixels differ, to see where a warp takes them from.\<close>

definition colour_image :: image where
  "colour_image =
     \<lparr>height = 2, width = 2, channels = 3,
      pixels = [10, 11, 12, 20, 21, 22, 30, 31, 32, 40, 41, 42]\<rparr>"

definition gray_image :: image where
  "gray_image = \<lparr>height = 2, width = 2, channels = 1, pixels = [255, 255, 255, 255]\<rparr>"

definition empty_fs :: fs where
  "empty_fs = \<lparr>dirs = [], files = []\<rparr>"

definition ready_fs :: fs where
  "ready_fs = \<lparr>dirs = [''processed_images''], files = []\<rparr>"

definition new_year :: datetime where
  "new_year = \<lparr>year = 2025, month = 1, day = 1, hour = 0, minute = 0, second = 5\<rparr>"

text \<open>
  Four detected lines whose normalized angles are 1, 88, 3 and 2 degrees, and three
  lines, two vertical and one horizontal, whose normalized angles are -90, 0 and -90
  degrees.
\<close>

definition lines_normalized :: "(real \<times> real) list" where
  "lines_normalized =
     [(10, 91 * pi / 180), (20, 178 * pi / 180), (30, 93 * pi / 180), (40, 92 * pi / 180)]"

definition lines_upright :: "(real \<times> real) list" where
  "lines_upright = [(1, 0), (1, pi / 2), (2, 0)]"

text \<open>A chat in which every edit succeeds, and one in which the warning cannot be shown.\<close>

definition chat_ok :: "status_text \<Rightarrow> bool" where
  "chat_ok t = True"

definition chat_without_warning :: "status_text \<Rightarrow> bool" where
  "chat_without_warning t = (t \<noteq> Preprocessing_error)"

section \<open>Lemmas on the orientation corrector\<close>

lemma bind_err_Inr: "bind_err (Inr x) f = f x"
  by (simp add: bind_err_def)

lemma rotate_via_candidates:
  "rotate_image_to_center L img =
     bind_err (line_candidates L img) (\<lambda>lines.
       case lines of
         Some ls \<Rightarrow>
           bind_err (shape2 img) (\<lambda>(h, w).
             warpAffine L img
               (getRotationMatrix2D (real (w div 2), real (h div 2))
                  (np_median L (map (line_angle L) ls)) 1)
               (w, h) INTER_CUBIC BORDER_REPLICATE)
       | None \<Rightarrow> Inr img)"
  unfolding rotate_image_to_center_def line_candidates_def bind_err_def Let_def
  by (simp split: sum.splits option.splits prod.splits)

lemma candidates_color:
  "channels a = 3 \<or> channels a = 4 \<Longrightarrow> \<exists>r. line_candidates L (NdArray a) = Inr r"
  unfolding line_candidates_def bind_err_def cvtColor_BGR2GRAY_def Canny_def HoughLines_def reshaped_def
  by (auto split: list.splits)

lemma candidates_nonempty: "line_candidates L img = Inr (Some ls) \<Longrightarrow> ls \<noteq> []"
  unfolding line_candidates_def bind_err_def HoughLines_def
  by (auto split: sum.splits pyval.splits if_splits list.splits)

lemma rotate_none: "line_candidates L img = Inr None \<Longrightarrow> rotate_image_to_center L img = Inr img"
  by (simp add: rotate_via_candidates bind_err_Inr)

lemma rotate_some:
  "line_candidates L (NdArray a) = Inr (Some ls) \<Longrightarrow>
   rotate_image_to_center L (NdArray a) =
     warpAffine L (NdArray a)
       (getRotationMatrix2D (real (width a div 2), real (height a div 2))
          (np_median L (map (line_angle L) ls)) 1)
       (width a, height a) INTER_CUBIC BORDER_REPLICATE"
  by (simp add: rotate_via_candidates bind_err_Inr shape2_def)

lemma rotate_color:
  assumes "channels a = 3 \<or> channels a = 4"
  shows "\<exists>r. rotate_image_to_center L (NdArray a) = Inr (NdArray r) \<and>
             height r = height a \<and> width r = width a \<and> channels r = channels a"
proof -
  from candidates_color [OF assms] obtain c where c: "line_candidates L (NdArray a) = Inr c"
    by blast
  show ?thesis
  proof (cases c)
    case None
    with c show ?thesis by (simp add: rotate_none)
  next
    case (Some ls)
    with c show ?thesis by (simp add: rotate_some warpAffine_def)
  qed
qed

lemma line_angle_explicit:
  "line_angle L = (\<lambda>l. f32 L (f32 L (snd l * f32 L (180 / f32 L pi)) - 90))"
  by (rule ext) (simp add: line_angle_def np_degrees_def split_def)

lemma median_explicit:
  "xs \<noteq> [] \<Longrightarrow>
   np_median L xs =
     Some (if odd (length xs) then sort xs ! (length xs div 2)
           else f32 L (f32 L (sort xs ! (length xs div 2 - 1) + sort xs ! (length xs div 2)) / 2))"
proof -
  assume "xs \<noteq> []"
  then have "sort xs \<noteq> []"
    by (metis length_0_conv length_sort)
  then show ?thesis
    by (simp add: np_median_def Let_def)
qed

lemma matrix_explicit:
  "getRotationMatrix2D (cx, cy) (Some ang) 1 =
     Some ((cos (ang * pi / 180), sin (ang * pi / 180),
            (1 - cos (ang * pi / 180)) * cx - sin (ang * pi / 180) * cy),
           (- sin (ang * pi / 180), cos (ang * pi / 180),
            sin (ang * pi / 180) * cx + (1 - cos (ang * pi / 180)) * cy))"
  by (simp add: getRotationMatrix2D_def Let_def)

lemma rotation_fixes_center:
  "affine_apply ((c, s, (1 - c) * cx - s * cy), (- s, c, s * cx + (1 - c) * cy)) (cx, cy) = (cx, cy)"
  by (simp add: affine_apply_def algebra_simps)

lemma rotation_linear_part:
  "linear_apply ((cos (ang * pi / 180), sin (ang * pi / 180), u),
                 (- sin (ang * pi / 180), cos (ang * pi / 180), v)) p = rotation_deg (- ang) p"
  by (simp add: linear_apply_def rotation_deg_def)

lemma rotation_levels_direction:
  "linear_apply ((cos (ang * pi / 180), sin (ang * pi / 180), u),
                 (- sin (ang * pi / 180), cos (ang * pi / 180), v))
     (cos (ang * pi / 180), sin (ang * pi / 180)) = (1, 0)"
  by (simp add: linear_apply_def)

lemma rotate_explicit:
  assumes "line_candidates L (NdArray a) = Inr (Some ls)"
  shows "rotate_image_to_center L (NdArray a) =
           warpAffine L (NdArray a)
             (getRotationMatrix2D (real (width a div 2), real (height a div 2))
                (Some (if odd (length ls)
                       then sort (map (\<lambda>l. f32 L (f32 L (snd l * f32 L (180 / f32 L pi)) - 90)) ls)
                              ! (length ls div 2)
                       else f32 L (f32 L
                              (sort (map (\<lambda>l. f32 L (f32 L (snd l * f32 L (180 / f32 L pi)) - 90)) ls)
                                 ! (length ls div 2 - 1) +
                               sort (map (\<lambda>l. f32 L (f32 L (snd l * f32 L (180 / f32 L pi)) - 90)) ls)
                                 ! (length ls div 2)) / 2))) 1)
             (width a, height a) INTER_CUBIC BORDER_REPLICATE"
proof -
  from candidates_nonempty [OF assms] have "map (line_angle L) ls \<noteq> []"
    by simp
  from median_explicit [OF this, of L] rotate_some [OF assms] show ?thesis
    by (simp add: line_angle_explicit)
qed

lemma candidates_demo:
  "channels a = 3 \<Longrightarrow>
   line_candidates (demo_lib ls) (NdArray a) = Inr (case ls of [] \<Rightarrow> None | _ \<Rightarrow> Some ls)"
  by (simp add: line_candidates_def cvtColor_BGR2GRAY_def Canny_def HoughLines_def bind_err_def
      demo_lib_def reshaped_def split: list.splits)

lemma channels_demo: "channels white_image = 3" "channels colour_image = 3"
  by (simp_all add: white_image_def colour_image_def)

lemma f32_demo: "f32 (demo_lib ls) = (\<lambda>x. x)"
  by (simp add: demo_lib_def)

lemma warp_quarter_turn:
  "nearest_warp colour_image (Some ((0, - 1, 2), (1, 0, 0))) (2, 2) INTER_CUBIC BORDER_REPLICATE
    = [30, 31, 32, 30, 31, 32, 40, 41, 42, 40, 41, 42]"
proof -
  have u: "[0..<2] = [0, Suc 0]"
    by (simp add: numeral_2_eq_2)
  show ?thesis
    by (simp add: nearest_warp_def source_point_def clamp_index_def pixel_at_def colour_image_def u)
qed

section \<open>Lemmas on paths\<close>

lemma dirname_join:
  assumes "CHR ''/'' \<notin> set f" and "d \<noteq> []" and "last d \<noteq> CHR ''/''"
  shows "dirname (os_path_join d f) = d"
proof -
  from assms(1) have hd: "\<not> (f \<noteq> [] \<and> hd f = CHR ''/'')"
    by (cases f) auto
  with assms(2, 3) have j: "os_path_join d f = d @ CHR ''/'' # f"
    by (simp add: os_path_join_def)
  from assms(1) have "\<forall>c \<in> set (rev f). c \<noteq> CHR ''/''"
    by auto
  then have 1: "dropWhile (\<lambda>c. c \<noteq> CHR ''/'') (rev f @ CHR ''/'' # rev d) = CHR ''/'' # rev d"
    by (simp add: dropWhile_append3)
  from assms(2, 3) have 2: "dropWhile (\<lambda>c. c = CHR ''/'') (rev d) = rev d"
    by (cases d rule: rev_cases) auto
  from assms(2, 3) have 3: "\<exists>x \<in> set d. x \<noteq> CHR ''/''"
    using last_in_set by blast
  from assms(2) 3 show ?thesis
    by (simp add: j dirname_def Let_def 1 2)
qed

lemma digit_no_slash: "digit n \<noteq> CHR ''/''"
proof -
  have "''0123456789'' ! (n mod 10) \<in> set ''0123456789''"
    by (rule nth_mem) simp
  then show ?thesis
    unfolding digit_def by auto
qed

lemma strftime_no_slash: "CHR ''/'' \<notin> set (strftime t)"
  using digit_no_slash [symmetric]
  by (simp add: strftime_def year_digits_def pad2_def pad4_def)

lemma artifact_dirname:
  assumes "CHR ''/'' \<notin> set t" and "CHR ''/'' \<notin> set label" and "d \<noteq> []" and "last d \<noteq> CHR ''/''"
  shows "dirname (artifact d t label) = d"
  unfolding artifact_def
  using assms by (intro dirname_join) auto

lemma artifact_dirnames:
  assumes "CHR ''/'' \<notin> set t" and "d \<noteq> []" and "last d \<noteq> CHR ''/''"
  shows "dirname (artifact d t ''original'') = d" "dirname (artifact d t ''1_gray'') = d"
    "dirname (artifact d t ''21_threshold'') = d" "dirname (artifact d t ''2_threshold'') = d"
    "dirname (artifact d t ''3_denoised'') = d"
  using assms by (simp_all add: artifact_dirname)

lemma strftime_new_year: "strftime new_year = ''20250101_000005''"
  by (simp add: strftime_def new_year_def year_digits_def pad2_def pad4_def digit_def)

section \<open>Lemmas on the pipeline and the orchestrator\<close>

lemma writes_only_pure: "writes_only P (pure_io r)"
  by (simp add: writes_only_def pure_io_def)

lemma writes_only_imwrite: "p \<in> P \<Longrightarrow> writes_only P (imwrite p v)"
  by (cases v) (auto simp: writes_only_def imwrite_def)

lemma writes_only_bind:
  assumes "writes_only P m" and "\<And>x. writes_only P (f x)"
  shows "writes_only P (bind_io m f)"
  unfolding writes_only_def
proof
  fix s
  obtain r s1 where m: "m s = (r, s1)"
    by (cases "m s")
  from assms(1) m have 1: "set (map fst (files s1)) \<subseteq> set (map fst (files s)) \<union> P"
    unfolding writes_only_def by (metis snd_conv)
  show "set (map fst (files (snd (bind_io m f s)))) \<subseteq> set (map fst (files s)) \<union> P"
  proof (cases r)
    case (Inl e)
    with m 1 show ?thesis by (simp add: bind_io_def)
  next
    case (Inr x)
    from assms(2) [of x] have "set (map fst (files (snd (f x s1)))) \<subseteq> set (map fst (files s1)) \<union> P"
      unfolding writes_only_def by blast
    with 1 have "set (map fst (files (snd (f x s1)))) \<subseteq> set (map fst (files s)) \<union> P"
      by blast
    with Inr m show ?thesis by (simp add: bind_io_def)
  qed
qed

lemma apply_to_itself:
  "bind_io (pure_io (method_apply L (createCLAHE c g) (createCLAHE c g))) f = pure_io (Inl (Cv2Error ''apply''))"
  by (rule ext) (simp add: bind_io_def pure_io_def method_apply_def createCLAHE_def)

lemma process_writes_only:
  "writes_only {artifact d t ''1_gray'', artifact d t ''21_threshold'', artifact d t ''2_threshold'',
      artifact d t ''3_denoised''} (process_image_for_ocr L img d t)"
  unfolding process_image_for_ocr_def Let_def apply_to_itself
  by (intro writes_only_bind writes_only_pure writes_only_imwrite) simp_all

lemma process_never_returns:
  "\<exists>e s'. process_image_for_ocr L img d t s = (Inl e, s')"
  unfolding process_image_for_ocr_def Let_def apply_to_itself
  unfolding bind_io_def pure_io_def
  by (simp split: sum.splits prod.splits)

lemma process_gray:
  "channels a = 1 \<Longrightarrow> process_image_for_ocr L (NdArray a) d t s = (Inl (Cv2Error ''cvtColor''), s)"
  unfolding process_image_for_ocr_def
  by (simp add: rotate_image_to_center_def cvtColor_BGR2GRAY_def bind_err_def bind_io_def pure_io_def)

lemma process_color:
  assumes "channels a = 3 \<or> channels a = 4"
      and "d \<in> set (dirs s)" and "d \<noteq> []" and "last d \<noteq> CHR ''/''" and "CHR ''/'' \<notin> set t"
  shows "\<exists>g q b n. process_image_for_ocr L (NdArray a) d t s =
           (Inl (Cv2Error ''apply''),
            s\<lparr>files := files s @
               [(artifact d t ''1_gray'', g), (artifact d t ''21_threshold'', q),
                (artifact d t ''2_threshold'', b), (artifact d t ''3_denoised'', n)]\<rparr>) \<and>
           (\<forall>x \<in> {g, q, b, n}. height x = height a \<and> width x = width a \<and> channels x = 1)"
proof -
  from rotate_color [OF assms(1), of L] obtain r where
    r: "rotate_image_to_center L (NdArray a) = Inr (NdArray r)" and
    shape: "height r = height a" "width r = width a" "channels r = channels a"
    by blast
  from assms(1) shape have c: "channels r = 3 \<or> channels r = 4"
    by simp
  note dn = artifact_dirnames [OF assms(5, 3, 4)]
  define g where "g = reshaped r 1 (gray_px L r)"
  define q where "q = reshaped g 1 (equalize_px L g)"
  define b where "b = reshaped q 1 (snd (threshold_px L q 0 255 (THRESH_BINARY + THRESH_OTSU)))"
  define n where "n = reshaped b 1 (denoise_px L b)"
  have shapes: "\<forall>x \<in> {g, q, b, n}. height x = height a \<and> width x = width a \<and> channels x = 1"
    by (simp add: g_def q_def b_def n_def reshaped_def shape)
  have "process_image_for_ocr L (NdArray a) d t s =
           (Inl (Cv2Error ''apply''),
            s\<lparr>files := files s @
               [(artifact d t ''1_gray'', g), (artifact d t ''21_threshold'', q),
                (artifact d t ''2_threshold'', b), (artifact d t ''3_denoised'', n)]\<rparr>)"
    unfolding process_image_for_ocr_def Let_def apply_to_itself g_def q_def b_def n_def
    using c assms(2)
    by (simp add: r pure_io_def cvtColor_BGR2GRAY_def imwrite_def bind_io_def dn dir_exists_def
        equalizeHist_def reshaped_def threshold_def fastNlMeansDenoising_def
        THRESH_BINARY_def THRESH_OTSU_def)
  with shapes show ?thesis
    by blast
qed

lemma ensure_output_dir_files: "files (snd (ensure_output_dir s)) = files s"
  by (simp add: ensure_output_dir_def makedirs_def Let_def)

lemma ensure_output_dir_ready:
  "''processed_images'' \<notin> set (map fst (files s)) \<Longrightarrow>
   ''processed_images'' \<in> set (dirs (snd (ensure_output_dir s)))"
  by (simp add: ensure_output_dir_def makedirs_def Let_def path_exists_def)

lemma ensure_output_dir_idem:
  "snd (ensure_output_dir (snd (ensure_output_dir s))) = snd (ensure_output_dir s)"
  by (simp add: ensure_output_dir_def Let_def path_exists_def makedirs_def)

lemma download_unfold:
  "download_and_preprocess_image L now image_url s =
     bind_io (pure_io (requests_get L image_url)) (\<lambda>content.
       bind_io (pure_io (imdecode_color L content)) (\<lambda>original_img.
       bind_io (imwrite (artifact ''processed_images'' (strftime now) ''original'') original_img) (\<lambda>_.
       bind_io (process_image_for_ocr L original_img ''processed_images'' (strftime now)) (\<lambda>processed.
       bind_io (pure_io (imencode_png L processed)) (\<lambda>(success, encoded_img).
       pure_io (Inr encoded_img))))))
     (snd (ensure_output_dir s))"
  unfolding download_and_preprocess_image_def Let_def
  by (simp add: bind_io_def ensure_output_dir_def Let_def)

lemma download_after_ensure:
  "download_and_preprocess_image L now url (snd (ensure_output_dir s)) =
   download_and_preprocess_image L now url s"
  by (simp add: download_unfold ensure_output_dir_idem)

lemma download_malformed:
  assumes "http_get L url = Some buf" and "decode_px L buf = None"
  shows "download_and_preprocess_image L now url s =
           (Inl (Cv2Error (if buf = [] then ''imdecode'' else ''imwrite'')), snd (ensure_output_dir s))"
  unfolding download_unfold
  by (simp add: assms requests_get_def imdecode_color_def bind_io_def pure_io_def imwrite_def)

lemma download_color:
  assumes "http_get L url = Some buf" and "buf \<noteq> []" and "decode_px L buf = Some (h, w, px)"
      and "''processed_images'' \<notin> set (map fst (files s))"
  shows "\<exists>g q b n. download_and_preprocess_image L now url s =
           (Inl (Cv2Error ''apply''),
            (snd (ensure_output_dir s))\<lparr>files := files s @
               [(artifact ''processed_images'' (strftime now) ''original'',
                   \<lparr>height = h, width = w, channels = 3, pixels = px\<rparr>),
                (artifact ''processed_images'' (strftime now) ''1_gray'', g),
                (artifact ''processed_images'' (strftime now) ''21_threshold'', q),
                (artifact ''processed_images'' (strftime now) ''2_threshold'', b),
                (artifact ''processed_images'' (strftime now) ''3_denoised'', n)]\<rparr>)"
proof -
  define a where "a = \<lparr>height = h, width = w, channels = 3, pixels = px\<rparr>"
  define s0 where "s0 = snd (ensure_output_dir s)"
  define s1 where "s1 = s0\<lparr>files := files s @ [(artifact ''processed_images'' (strftime now) ''original'', a)]\<rparr>"
  have d0: "''processed_images'' \<in> set (dirs s0)"
    unfolding s0_def using assms(4) by (rule ensure_output_dir_ready)
  then have d1: "''processed_images'' \<in> set (dirs s1)"
    by (simp add: s1_def)
  have f0: "files s0 = files s"
    by (simp add: s0_def ensure_output_dir_files)
  have plain: "''processed_images'' \<noteq> []" "last ''processed_images'' \<noteq> CHR ''/''"
    by simp_all
  note dn = artifact_dirnames [OF strftime_no_slash plain]
  have "channels a = 3 \<or> channels a = 4"
    by (simp add: a_def)
  from process_color [OF this d1 plain strftime_no_slash, of L]
  obtain g q b n where p: "process_image_for_ocr L (NdArray a) ''processed_images'' (strftime now) s1 =
           (Inl (Cv2Error ''apply''),
            s1\<lparr>files := files s1 @
               [(artifact ''processed_images'' (strftime now) ''1_gray'', g),
                (artifact ''processed_images'' (strftime now) ''21_threshold'', q),
                (artifact ''processed_images'' (strftime now) ''2_threshold'', b),
                (artifact ''processed_images'' (strftime now) ''3_denoised'', n)]\<rparr>)"
    by blast
  have "download_and_preprocess_image L now url s =
     bind_io (process_image_for_ocr L (NdArray a) ''processed_images'' (strftime now)) (\<lambda>processed.
       bind_io (pure_io (imencode_png L processed)) (\<lambda>(success, encoded_img).
       pure_io (Inr encoded_img))) s1"
    unfolding download_unfold s0_def [symmetric]
    using d0
    by (simp add: assms(1-3) requests_get_def imdecode_color_def bind_io_def pure_io_def imwrite_def
        a_def s1_def f0 dn dir_exists_def)
  also have "\<dots> = (Inl (Cv2Error ''apply''),
            s1\<lparr>files := files s1 @
               [(artifact ''processed_images'' (strftime now) ''1_gray'', g),
                (artifact ''processed_images'' (strftime now) ''21_threshold'', q),
                (artifact ''processed_images'' (strftime now) ''2_threshold'', b),
                (artifact ''processed_images'' (strftime now) ''3_denoised'', n)]\<rparr>)"
    by (simp add: bind_io_def p)
  finally show ?thesis
    by (auto simp: s1_def s0_def a_def)
qed

lemma stages_demo:
  "cvtColor_BGR2GRAY (demo_lib ls) (NdArray white_image) = Inr (NdArray gray_image)"
  "equalizeHist (demo_lib ls) (NdArray gray_image) = Inr (NdArray gray_image)"
  "threshold (demo_lib ls) (NdArray gray_image) 0 255 (THRESH_BINARY + THRESH_OTSU) = Inr (0, NdArray gray_image)"
  "fastNlMeansDenoising (demo_lib ls) (NdArray gray_image) = Inr (NdArray gray_image)"
  by (simp_all add: cvtColor_BGR2GRAY_def equalizeHist_def threshold_def fastNlMeansDenoising_def
      demo_lib_def white_image_def gray_image_def reshaped_def THRESH_BINARY_def THRESH_OTSU_def)

lemma rotate_demo_none: "rotate_image_to_center (demo_lib []) (NdArray white_image) = Inr (NdArray white_image)"
  by (simp add: rotate_none candidates_demo channels_demo)

lemma dirnames_demo:
  "dirname (artifact ''processed_images'' ''20250101_000005'' ''original'') = ''processed_images''"
  "dirname (artifact ''processed_images'' ''20250101_000005'' ''1_gray'') = ''processed_images''"
  "dirname (artifact ''processed_images'' ''20250101_000005'' ''21_threshold'') = ''processed_images''"
  "dirname (artifact ''processed_images'' ''20250101_000005'' ''2_threshold'') = ''processed_images''"
  "dirname (artifact ''processed_images'' ''20250101_000005'' ''3_denoised'') = ''processed_images''"
  by (rule artifact_dirnames; simp)+

lemma dirnames_demo_literal:
  "dirname ''processed_images/20250101_000005_original.png'' = ''processed_images''"
  "dirname ''processed_images/20250101_000005_1_gray.png'' = ''processed_images''"
  "dirname ''processed_images/20250101_000005_21_threshold.png'' = ''processed_images''"
  "dirname ''processed_images/20250101_000005_2_threshold.png'' = ''processed_images''"
  "dirname ''processed_images/20250101_000005_3_denoised.png'' = ''processed_images''"
  using dirnames_demo by (simp_all add: artifact_def os_path_join_def)

lemma artifacts_demo:
  "artifact ''processed_images'' ''20250101_000005'' ''original'' = ''processed_images/20250101_000005_original.png''"
  "artifact ''processed_images'' ''20250101_000005'' ''1_gray'' = ''processed_images/20250101_000005_1_gray.png''"
  "artifact ''processed_images'' ''20250101_000005'' ''21_threshold'' = ''processed_images/20250101_000005_21_threshold.png''"
  "artifact ''processed_images'' ''20250101_000005'' ''2_threshold'' = ''processed_images/20250101_000005_2_threshold.png''"
  "artifact ''processed_images'' ''20250101_000005'' ''3_denoised'' = ''processed_images/20250101_000005_3_denoised.png''"
  by (simp_all add: artifact_def os_path_join_def)

lemma process_demo:
  "''processed_images'' \<in> set (dirs s) \<Longrightarrow>
   process_image_for_ocr (demo_lib []) (NdArray white_image) ''processed_images'' ''20250101_000005'' s =
     (Inl (Cv2Error ''apply''),
      s\<lparr>files := files s @
         [(''processed_images/20250101_000005_1_gray.png'', gray_image),
          (''processed_images/20250101_000005_21_threshold.png'', gray_image),
          (''processed_images/20250101_000005_2_threshold.png'', gray_image),
          (''processed_images/20250101_000005_3_denoised.png'', gray_image)]\<rparr>)"
  unfolding process_image_for_ocr_def Let_def apply_to_itself
  by (simp add: rotate_demo_none stages_demo pure_io_def imwrite_def bind_io_def
      dirnames_demo dir_exists_def artifacts_demo [symmetric])

lemma download_demo:
  "download_and_preprocess_image (demo_lib []) new_year ''https://example.org/photo.jpg'' empty_fs =
     (Inl (Cv2Error ''apply''),
      \<lparr>dirs = [''processed_images''],
       files = [(''processed_images/20250101_000005_original.png'', white_image),
                (''processed_images/20250101_000005_1_gray.png'', gray_image),
                (''processed_images/20250101_000005_21_threshold.png'', gray_image),
                (''processed_images/20250101_000005_2_threshold.png'', gray_image),
                (''processed_images/20250101_000005_3_denoised.png'', gray_image)]\<rparr>)"
proof -
  have d: "imdecode_color (demo_lib []) [1, 2, 3] = Inr (NdArray white_image)"
    by (simp add: imdecode_color_def demo_lib_def white_image_def)
  have g: "requests_get (demo_lib []) ''https://example.org/photo.jpg'' = Inr [1, 2, 3]"
    by (simp add: requests_get_def demo_lib_def)
  have e: "ensure_output_dir empty_fs = (Inr ''processed_images'', \<lparr>dirs = [''processed_images''], files = []\<rparr>)"
    by (simp add: ensure_output_dir_def Let_def path_exists_def makedirs_def empty_fs_def)
  show ?thesis
    unfolding download_and_preprocess_image_def Let_def
    by (simp add: bind_io_def e g d pure_io_def strftime_new_year imwrite_def process_demo
        dirnames_demo_literal dir_exists_def artifacts_demo)
qed

lemma download_demo_malformed:
  "download_and_preprocess_image (demo_lib []) new_year ''https://example.org/page.html'' empty_fs =
     (Inl (Cv2Error ''imwrite''), \<lparr>dirs = [''processed_images''], files = []\<rparr>)"
proof -
  have h: "http_get (demo_lib []) ''https://example.org/page.html'' = Some [60, 104]"
    by (simp add: demo_lib_def)
  have d: "decode_px (demo_lib []) [60, 104] = None"
    by (simp add: demo_lib_def)
  from download_malformed [OF h d, of new_year empty_fs] show ?thesis
    by (simp add: ensure_output_dir_def Let_def path_exists_def makedirs_def empty_fs_def)
qed

section \<open>The claims\<close>

text \<open>
  C1, as amended. For every input, \<open>process_image_for_ocr\<close> ends in an exception, never
  returns a value, and writes no file other than the four artifacts up to \<open>3_denoised\<close>.
  For every image with 3 or 4 channels, written to an existing directory, the exception
  is the one raised by applying the CLAHE operator to itself, after exactly the artifacts
  \<open>1_gray\<close>, \<open>21_threshold\<close>, \<open>2_threshold\<close> and \<open>3_denoised\<close> were written; with the
  orchestrator in front (and no regular file in the place of its directory), the
  \<open>original\<close> artifact precedes them and nothing follows. (An image with one channel
  fails earlier: see the counterexample.)
\<close>

theorem process_image_for_ocr_fails_at_contrast_stage:
  "(\<exists>e s'. process_image_for_ocr L v d t s = (Inl e, s')) \<and>
   set (map fst (files (snd (process_image_for_ocr L v d t s)))) \<subseteq>
     set (map fst (files s)) \<union>
     {artifact d t ''1_gray'', artifact d t ''21_threshold'', artifact d t ''2_threshold'',
      artifact d t ''3_denoised''} \<and>
   ((channels a = 3 \<or> channels a = 4) \<and> d \<in> set (dirs s) \<and> d \<noteq> [] \<and> last d \<noteq> CHR ''/'' \<and>
     CHR ''/'' \<notin> set t \<longrightarrow>
     (\<exists>g q b n. process_image_for_ocr L (NdArray a) d t s =
        (Inl (Cv2Error ''apply''),
         s\<lparr>files := files s @
            [(artifact d t ''1_gray'', g), (artifact d t ''21_threshold'', q),
             (artifact d t ''2_threshold'', b), (artifact d t ''3_denoised'', n)]\<rparr>) \<and>
        (\<forall>x \<in> {g, q, b, n}. height x = height a \<and> width x = width a \<and> channels x = 1))) \<and>
   (http_get L url = Some buf \<and> buf \<noteq> [] \<and> decode_px L buf = Some (h, w, px) \<and>
     ''processed_images'' \<notin> set (map fst (files s)) \<longrightarrow>
     (\<exists>g q b n. download_and_preprocess_image L now url s =
        (Inl (Cv2Error ''apply''),
         (snd (ensure_output_dir s))\<lparr>files := files s @
            [(artifact ''processed_images'' (strftime now) ''original'',
                \<lparr>height = h, width = w, channels = 3, pixels = px\<rparr>),
             (artifact ''processed_images'' (strftime now) ''1_gray'', g),
             (artifact ''processed_images'' (strftime now) ''21_threshold'', q),
             (artifact ''processed_images'' (strftime now) ''2_threshold'', b),
             (artifact ''processed_images'' (strftime now) ''3_denoised'', n)]\<rparr>)))"
proof (intro conjI impI)
  show "\<exists>e s'. process_image_for_ocr L v d t s = (Inl e, s')"
    by (rule process_never_returns)
next
  from process_writes_only [of d t L v]
  show "set (map fst (files (snd (process_image_for_ocr L v d t s)))) \<subseteq>
     set (map fst (files s)) \<union>
     {artifact d t ''1_gray'', artifact d t ''21_threshold'', artifact d t ''2_threshold'',
      artifact d t ''3_denoised''}"
    unfolding writes_only_def by blast
next
  assume "(channels a = 3 \<or> channels a = 4) \<and> d \<in> set (dirs s) \<and> d \<noteq> [] \<and>
    last d \<noteq> CHR ''/'' \<and> CHR ''/'' \<notin> set t"
  then show "\<exists>g q b n. process_image_for_ocr L (NdArray a) d t s =
        (Inl (Cv2Error ''apply''),
         s\<lparr>files := files s @
            [(artifact d t ''1_gray'', g), (artifact d t ''21_threshold'', q),
             (artifact d t ''2_threshold'', b), (artifact d t ''3_denoised'', n)]\<rparr>) \<and>
        (\<forall>x \<in> {g, q, b, n}. height x = height a \<and> width x = width a \<and> channels x = 1)"
    by (intro process_color) simp_all
next
  assume "http_get L url = Some buf \<and> buf \<noteq> [] \<and> decode_px L buf = Some (h, w, px) \<and>
     ''processed_images'' \<notin> set (map fst (files s))"
  then show "\<exists>g q b n. download_and_preprocess_image L now url s =
        (Inl (Cv2Error ''apply''),
         (snd (ensure_output_dir s))\<lparr>files := files s @
            [(artifact ''processed_images'' (strftime now) ''original'',
                \<lparr>height = h, width = w, channels = 3, pixels = px\<rparr>),
             (artifact ''processed_images'' (strftime now) ''1_gray'', g),
             (artifact ''processed_images'' (strftime now) ''21_threshold'', q),
             (artifact ''processed_images'' (strftime now) ''2_threshold'', b),
             (artifact ''processed_images'' (strftime now) ''3_denoised'', n)]\<rparr>)"
    by (elim conjE) (rule download_color; assumption)
qed

theorem process_image_for_ocr_fails_at_contrast_stage_witness:
  "((channels white_image = 3 \<or> channels white_image = 4) \<and>
    ''processed_images'' \<in> set (dirs ready_fs) \<and> ''processed_images'' \<noteq> [] \<and>
    last ''processed_images'' \<noteq> CHR ''/'' \<and> CHR ''/'' \<notin> set ''20250101_000005'') \<and>
   (http_get (demo_lib []) ''https://example.org/photo.jpg'' = Some [1, 2, 3] \<and>
    [1, 2, 3] \<noteq> ([] :: byte list) \<and>
    decode_px (demo_lib []) [1, 2, 3] =
      Some (2, 2, [255, 255, 255, 255, 255, 255, 255, 255, 255, 255, 255, 255]) \<and>
    ''processed_images'' \<notin> set (map fst (files ready_fs))) \<and>
   (\<exists>g q b n. process_image_for_ocr (demo_lib []) (NdArray white_image) ''processed_images''
        ''20250101_000005'' ready_fs =
        (Inl (Cv2Error ''apply''),
         ready_fs\<lparr>files := files ready_fs @
            [(artifact ''processed_images'' ''20250101_000005'' ''1_gray'', g),
             (artifact ''processed_images'' ''20250101_000005'' ''21_threshold'', q),
             (artifact ''processed_images'' ''20250101_000005'' ''2_threshold'', b),
             (artifact ''processed_images'' ''20250101_000005'' ''3_denoised'', n)]\<rparr>)) \<and>
   (\<exists>g q b n. download_and_preprocess_image (demo_lib []) new_year
        ''https://example.org/photo.jpg'' ready_fs =
        (Inl (Cv2Error ''apply''),
         (snd (ensure_output_dir ready_fs))\<lparr>files := files ready_fs @
            [(artifact ''processed_images'' (strftime new_year) ''original'', white_image),
             (artifact ''processed_images'' (strftime new_year) ''1_gray'', g),
             (artifact ''processed_images'' (strftime new_year) ''21_threshold'', q),
             (artifact ''processed_images'' (strftime new_year) ''2_threshold'', b),
             (artifact ''processed_images'' (strftime new_year) ''3_denoised'', n)]\<rparr>))"
proof -
  have c: "(channels white_image = 3 \<or> channels white_image = 4) \<and>
    ''processed_images'' \<in> set (dirs ready_fs) \<and> ''processed_images'' \<noteq> [] \<and>
    last ''processed_images'' \<noteq> CHR ''/'' \<and> CHR ''/'' \<notin> set ''20250101_000005''"
    by (simp add: white_image_def ready_fs_def)
  have h: "http_get (demo_lib []) ''https://example.org/photo.jpg'' = Some [1, 2, 3] \<and>
    [1, 2, 3] \<noteq> ([] :: byte list) \<and>
    decode_px (demo_lib []) [1, 2, 3] =
      Some (2, 2, [255, 255, 255, 255, 255, 255, 255, 255, 255, 255, 255, 255]) \<and>
    ''processed_images'' \<notin> set (map fst (files ready_fs))"
    by (simp add: demo_lib_def ready_fs_def)
  have w: "white_image = \<lparr>height = 2, width = 2, channels = 3,
      pixels = [255, 255, 255, 255, 255, 255, 255, 255, 255, 255, 255, 255]\<rparr>"
    by (simp add: white_image_def)
  from process_image_for_ocr_fails_at_contrast_stage
    [where L = "demo_lib []" and a = white_image and d = "''processed_images''"
       and t = "''20250101_000005''" and s = ready_fs and now = new_year
       and url = "''https://example.org/photo.jpg''" and buf = "[1, 2, 3]" and h = 2 and w = 2
       and px = "[255, 255, 255, 255, 255, 255, 255, 255, 255, 255, 255, 255]"]
    c h
  show ?thesis
    unfolding w by blast
qed

text \<open>
  C1, counterexample. On an image with one channel the function ends in the exception
  of the conversion to grayscale inside the orientation corrector, not in the one of the
  contrast stage, and writes no artifact at all.
\<close>

theorem process_image_for_ocr_grayscale_fails_earlier:
  "process_image_for_ocr (demo_lib []) (NdArray gray_image) ''processed_images''
     ''20250101_000005'' ready_fs = (Inl (Cv2Error ''cvtColor''), ready_fs)"
  by (simp add: process_gray gray_image_def)

text \<open>
  C2. The claim is that the pipeline returns the image of the contrast stage. Run on a
  white colour image, with the output directory in place, the function returns no image:
  it ends in the exception of the contrast stage, with four artifacts written.
\<close>

theorem process_image_for_ocr_returns_no_image:
  "fst (process_image_for_ocr (demo_lib []) (NdArray white_image) ''processed_images''
          ''20250101_000005'' ready_fs) = Inl (Cv2Error ''apply'') \<and>
   map fst (files (snd (process_image_for_ocr (demo_lib []) (NdArray white_image)
          ''processed_images'' ''20250101_000005'' ready_fs))) =
     [''processed_images/20250101_000005_1_gray.png'',
      ''processed_images/20250101_000005_21_threshold.png'',
      ''processed_images/20250101_000005_2_threshold.png'',
      ''processed_images/20250101_000005_3_denoised.png'']"
  by (simp add: process_demo ready_fs_def)

text \<open>
  C3. When the line detection finds no line, the orientation corrector returns its input
  unchanged, as a normal result.
\<close>

theorem rotate_image_to_center_identity_without_lines:
  "line_candidates L img = Inr None \<Longrightarrow> rotate_image_to_center L img = Inr img"
  by (rule rotate_none)

theorem rotate_image_to_center_identity_without_lines_witness:
  "line_candidates (demo_lib []) (NdArray white_image) = Inr None \<and>
   rotate_image_to_center (demo_lib []) (NdArray white_image) = Inr (NdArray white_image)"
proof -
  have lc: "line_candidates (demo_lib []) (NdArray white_image) = Inr None"
    by (simp add: candidates_demo channels_demo)
  from rotate_image_to_center_identity_without_lines [OF lc] lc show ?thesis
    by simp
qed

text \<open>
  C4, as amended. For every image with 3 or 4 channels the orientation corrector returns
  an image of the same height, width and channel count. (An image with one channel is
  rejected by the conversion to grayscale: see the counterexample.)
\<close>

theorem rotate_image_to_center_keeps_shape:
  assumes "channels a = 3 \<or> channels a = 4"
  shows "\<exists>r. rotate_image_to_center L (NdArray a) = Inr (NdArray r) \<and>
             height r = height a \<and> width r = width a \<and> channels r = channels a"
  using assms by (rule rotate_color)

theorem rotate_image_to_center_keeps_shape_witness:
  "(channels white_image = 3 \<or> channels white_image = 4) \<and>
   (\<exists>r. rotate_image_to_center (demo_lib lines_normalized) (NdArray white_image) = Inr (NdArray r) \<and>
        height r = height white_image \<and> width r = width white_image \<and>
        channels r = channels white_image)"
proof -
  have c: "channels white_image = 3 \<or> channels white_image = 4"
    by (simp add: white_image_def)
  from rotate_image_to_center_keeps_shape [OF c, of "demo_lib lines_normalized"] c show ?thesis
    by blast
qed

text \<open>
  C4, counterexample. On a grayscale image (one channel) the orientation corrector
  returns no image: the conversion from BGR to grayscale raises.
\<close>

theorem rotate_image_to_center_grayscale_raises:
  "rotate_image_to_center (demo_lib []) (NdArray gray_image) = Inl (Cv2Error ''cvtColor'')"
  by (simp add: rotate_image_to_center_def cvtColor_BGR2GRAY_def gray_image_def bind_err_def)

text \<open>
  C5. When lines are detected, each detected angle \<open>theta\<close> (in radians) is turned into
  \<open>theta * 180 / pi - 90\<close> degrees in \<^verbatim>\<open>float32\<close> arithmetic, and \<open>angle\<close> is the median
  of these: the middle one of the sorted values, or the \<^verbatim>\<open>float32\<close> mean of the two
  middle ones. The result of the corrector is the input image itself (not its grayscale
  version), warped with cubic interpolation and border replication to its own size
  (width, height) by the matrix \<open>M\<close> written out below, with \<open>c\<close> and \<open>s\<close> the cosine and
  sine of \<open>angle\<close> and (\<open>cx\<close>, \<open>cy\<close>) the point (width div 2, height div 2). \<open>M\<close> keeps that
  point fixed, its linear part is the rotation by the negative of \<open>angle\<close>, and it turns
  the direction of a line at \<open>angle\<close> into the horizontal direction.
\<close>

theorem rotate_image_to_center_cancels_skew:
  assumes "line_candidates L (NdArray a) = Inr (Some ls)"
  shows "let xs = sort (map (\<lambda>l. f32 L (f32 L (snd l * f32 L (180 / f32 L pi)) - 90)) ls);
             n = length ls;
             angle = (if odd n then xs ! (n div 2)
                      else f32 L (f32 L (xs ! (n div 2 - 1) + xs ! (n div 2)) / 2));
             c = cos (angle * pi / 180);
             s = sin (angle * pi / 180);
             cx = real (width a div 2);
             cy = real (height a div 2);
             M = ((c, s, (1 - c) * cx - s * cy), (- s, c, s * cx + (1 - c) * cy))
         in ls \<noteq> [] \<and>
            rotate_image_to_center L (NdArray a) =
              Inr (NdArray \<lparr>height = height a, width = width a, channels = channels a,
                    pixels = warp_px L a (Some M) (width a, height a) INTER_CUBIC BORDER_REPLICATE\<rparr>) \<and>
            affine_apply M (cx, cy) = (cx, cy) \<and>
            (\<forall>p. linear_apply M p = rotation_deg (- angle) p) \<and>
            linear_apply M (c, s) = (1, 0)"
proof -
  define angle where
    "angle = (if odd (length ls)
              then sort (map (\<lambda>l. f32 L (f32 L (snd l * f32 L (180 / f32 L pi)) - 90)) ls)
                     ! (length ls div 2)
              else f32 L (f32 L
                     (sort (map (\<lambda>l. f32 L (f32 L (snd l * f32 L (180 / f32 L pi)) - 90)) ls)
                        ! (length ls div 2 - 1) +
                      sort (map (\<lambda>l. f32 L (f32 L (snd l * f32 L (180 / f32 L pi)) - 90)) ls)
                        ! (length ls div 2)) / 2))"
  have r: "rotate_image_to_center L (NdArray a) =
      Inr (NdArray \<lparr>height = height a, width = width a, channels = channels a,
        pixels = warp_px L a
          (Some ((cos (angle * pi / 180), sin (angle * pi / 180),
                  (1 - cos (angle * pi / 180)) * real (width a div 2) -
                  sin (angle * pi / 180) * real (height a div 2)),
                 (- sin (angle * pi / 180), cos (angle * pi / 180),
                  sin (angle * pi / 180) * real (width a div 2) +
                  (1 - cos (angle * pi / 180)) * real (height a div 2))))
          (width a, height a) INTER_CUBIC BORDER_REPLICATE\<rparr>)"
    unfolding angle_def
    by (simp only: rotate_explicit [OF assms] matrix_explicit warpAffine_def pyval.case fst_conv
        snd_conv)
  show ?thesis
    unfolding Let_def angle_def [symmetric]
    by (intro conjI allI candidates_nonempty [OF assms] r rotation_fixes_center
        rotation_linear_part rotation_levels_direction)
qed

theorem rotate_image_to_center_cancels_skew_witness:
  "line_candidates (demo_lib lines_upright) (NdArray colour_image) = Inr (Some lines_upright) \<and>
   rotate_image_to_center (demo_lib lines_upright) (NdArray colour_image) =
     Inr (NdArray \<lparr>height = 2, width = 2, channels = 3,
           pixels = [30, 31, 32, 30, 31, 32, 40, 41, 42, 40, 41, 42]\<rparr>)"
proof -
  have lc: "line_candidates (demo_lib lines_upright) (NdArray colour_image) = Inr (Some lines_upright)"
    by (simp add: candidates_demo channels_demo lines_upright_def)
  have xs: "map (\<lambda>l. snd l * 180 / pi - 90) lines_upright = [- 90, 0, - 90]"
    by (simp add: lines_upright_def)
  have n: "length lines_upright = 3"
    by (simp add: lines_upright_def)
  have sh: "height colour_image = 2" "width colour_image = 2" "channels colour_image = 3"
    by (simp_all add: colour_image_def)
  have w: "warp_px (demo_lib lines_upright) = nearest_warp"
    by (simp add: demo_lib_def)
  from rotate_image_to_center_cancels_skew [OF lc] lc show ?thesis
    by (simp add: Let_def f32_demo xs n sh w warp_quarter_turn)
qed

text \<open>
  C6, as amended. Each detected angle is normalized as its value in degrees minus 90
  (in \<^verbatim>\<open>float32\<close> arithmetic), and the angle of the correction is the numpy median of
  the normalized angles, not their mean: the middle one of the sorted values when their
  number is odd, the \<^verbatim>\<open>float32\<close> mean of the two middle ones when it is even. For the
  normalized angles 1, 2, 3 and 88 degrees it is the rounded half of the rounded 5, which
  is 2.5 degrees when 5 and 2.5 are \<^verbatim>\<open>float32\<close> numbers (they are), and not the mean
  23.5.
\<close>

theorem skew_angle_is_numpy_median:
  assumes "line_candidates L (NdArray a) = Inr (Some ls)"
  shows "let xs = sort (map (\<lambda>l. f32 L (f32 L (snd l * f32 L (180 / f32 L pi)) - 90)) ls);
             n = length ls;
             angle = (if odd n then xs ! (n div 2)
                      else f32 L (f32 L (xs ! (n div 2 - 1) + xs ! (n div 2)) / 2))
         in rotate_image_to_center L (NdArray a) =
              warpAffine L (NdArray a)
                (getRotationMatrix2D (real (width a div 2), real (height a div 2)) (Some angle) 1)
                (width a, height a) INTER_CUBIC BORDER_REPLICATE \<and>
            np_median L [1, 2, 3, 88] = Some (f32 L (f32 L 5 / 2)) \<and>
            (f32 L 5 = 5 \<and> f32 L (5 / 2) = 5 / 2 \<longrightarrow>
               np_median L [1, 2, 3, 88] = Some (5 / 2) \<and>
               np_median L [1, 2, 3, 88] \<noteq> Some (sum_list [1, 2, 3, 88] / 4))"
  unfolding Let_def
proof (intro conjI impI)
  show "rotate_image_to_center L (NdArray a) =
      warpAffine L (NdArray a)
        (getRotationMatrix2D (real (width a div 2), real (height a div 2))
           (Some (if odd (length ls)
                  then sort (map (\<lambda>l. f32 L (f32 L (snd l * f32 L (180 / f32 L pi)) - 90)) ls)
                         ! (length ls div 2)
                  else f32 L (f32 L
                         (sort (map (\<lambda>l. f32 L (f32 L (snd l * f32 L (180 / f32 L pi)) - 90)) ls)
                            ! (length ls div 2 - 1) +
                          sort (map (\<lambda>l. f32 L (f32 L (snd l * f32 L (180 / f32 L pi)) - 90)) ls)
                            ! (length ls div 2)) / 2))) 1)
        (width a, height a) INTER_CUBIC BORDER_REPLICATE"
    using assms by (rule rotate_explicit)
  show m: "np_median L [1, 2, 3, 88] = Some (f32 L (f32 L 5 / 2))"
    by (simp add: np_median_def Let_def)
  assume e: "f32 L 5 = 5 \<and> f32 L (5 / 2) = 5 / 2"
  with m show "np_median L [1, 2, 3, 88] = Some (5 / 2)"
    by simp
  from m e show "np_median L [1, 2, 3, 88] \<noteq> Some (sum_list [1, 2, 3, 88] / 4)"
    by simp
qed

theorem skew_angle_is_numpy_median_witness:
  "line_candidates (demo_lib lines_normalized) (NdArray white_image) = Inr (Some lines_normalized) \<and>
   (f32 (demo_lib lines_normalized) 5 = 5 \<and> f32 (demo_lib lines_normalized) (5 / 2) = 5 / 2) \<and>
   rotate_image_to_center (demo_lib lines_normalized) (NdArray white_image) =
     warpAffine (demo_lib lines_normalized) (NdArray white_image)
       (getRotationMatrix2D (1, 1) (Some (5 / 2)) 1) (2, 2) INTER_CUBIC BORDER_REPLICATE \<and>
   np_median (demo_lib lines_normalized) [1, 2, 3, 88] = Some (5 / 2)"
proof -
  have lc: "line_candidates (demo_lib lines_normalized) (NdArray white_image) = Inr (Some lines_normalized)"
    by (simp add: candidates_demo channels_demo lines_normalized_def)
  have e: "f32 (demo_lib lines_normalized) 5 = 5 \<and> f32 (demo_lib lines_normalized) (5 / 2) = 5 / 2"
    by (simp add: f32_demo)
  have xs: "map (\<lambda>l. snd l * 180 / pi - 90) lines_normalized = [1, 88, 3, 2]"
    by (simp add: lines_normalized_def)
  have n: "length lines_normalized = 4"
    by (simp add: lines_normalized_def)
  have sh: "height white_image = 2" "width white_image = 2"
    by (simp_all add: white_image_def)
  from skew_angle_is_numpy_median [OF lc] lc e show ?thesis
    by (simp add: Let_def f32_demo xs n sh)
qed

text \<open>
  C6, counterexample. The median of the four normalized angles 1, 2, 3 and 88 is 2.5,
  not 2; and when 1, 2, 3 and 88 degrees are the Hough angles before normalization, the
  normalized angles are -89, -88, -87 and -2, and their median is -87.5.
\<close>

theorem median_of_four_lines_is_not_two:
  "np_median (demo_lib []) [1, 2, 3, 88] = Some (5 / 2) \<and>
   np_median (demo_lib []) [- 89, - 88, - 87, - 2] = Some (- 175 / 2) \<and>
   np_median (demo_lib []) [1, 2, 3, 88] \<noteq> Some 2 \<and>
   np_median (demo_lib []) [- 89, - 88, - 87, - 2] \<noteq> Some 2"
  by (simp add: np_median_def Let_def f32_demo)

text \<open>
  C7, as amended. When the downloaded bytes decode to no image, the orchestrator ends in
  an exception and the files on disk are those there were before: no artifact is
  written. The exception is the generic error of OpenCV, raised by the decoder for an
  empty body and otherwise when the undecoded original is saved; there is no condition
  of its own for a failed decoding.
\<close>

theorem download_fails_on_malformed_bytes:
  assumes "http_get L url = Some buf" and "decode_px L buf = None"
  shows "fst (download_and_preprocess_image L now url s) =
           Inl (Cv2Error (if buf = [] then ''imdecode'' else ''imwrite'')) \<and>
         files (snd (download_and_preprocess_image L now url s)) = files s"
  by (simp add: download_malformed [OF assms] ensure_output_dir_files)

theorem download_fails_on_malformed_bytes_witness:
  "http_get (demo_lib []) ''https://example.org/page.html'' = Some [60, 104] \<and>
   decode_px (demo_lib []) [60, 104] = None \<and>
   fst (download_and_preprocess_image (demo_lib []) new_year ''https://example.org/page.html'' empty_fs)
     = Inl (Cv2Error ''imwrite'') \<and>
   files (snd (download_and_preprocess_image (demo_lib []) new_year ''https://example.org/page.html''
     empty_fs)) = []"
proof -
  have h: "http_get (demo_lib []) ''https://example.org/page.html'' = Some [60, 104]"
    by (simp add: demo_lib_def)
  have d: "decode_px (demo_lib []) [60, 104] = None"
    by (simp add: demo_lib_def)
  from download_fails_on_malformed_bytes [OF h d, of new_year empty_fs] h d show ?thesis
    by (simp add: empty_fs_def)
qed

text \<open>
  C7, counterexample. On bytes that are no image the decoder raises nothing: it returns
  \<^verbatim>\<open>None\<close>. The orchestrator then ends in the error that OpenCV raises from
  \<^verbatim>\<open>imwrite\<close>, an error of the same class as the one a failing stage of the pipeline
  ends in, not in a decode error.
\<close>

theorem download_raises_no_decode_error:
  "imdecode_color (demo_lib []) [60, 104] = Inr PyNone \<and>
   fst (download_and_preprocess_image (demo_lib []) new_year ''https://example.org/page.html''
     empty_fs) = Inl (Cv2Error ''imwrite'') \<and>
   fst (download_and_preprocess_image (demo_lib []) new_year ''https://example.org/photo.jpg''
     empty_fs) = Inl (Cv2Error ''apply'')"
proof -
  have "imdecode_color (demo_lib []) [60, 104] = Inr PyNone"
    by (simp add: imdecode_color_def demo_lib_def)
  then show ?thesis
    by (simp add: download_demo download_demo_malformed)
qed

text \<open>
  C8, as amended. The orchestrator catches nothing: an exception of the orientation
  corrector or of the pipeline leaves it as it was raised. The handler of the caller
  catches whatever exception the orchestrator ends in. When the edit of the status
  message in that handler succeeds, the request sent to the OCR service is the one that
  reads the original image from its address, and the caller goes on normally; when that
  edit raises, no request is sent and the exception of the edit leaves the fragment.
\<close>

theorem handle_photo_falls_back_to_original:
  assumes "download_and_preprocess_image L now url s = (Inl e, s')" and "chat Preprocessing"
  shows "handle_photo_request L chat now url s =
           (if chat Preprocessing_error then Inr (Read_url url) else Inl TelegramError, s')"
proof -
  obtain s0 where s0: "ensure_output_dir s = (Inr ''processed_images'', s0)"
    by (simp add: ensure_output_dir_def Let_def)
  then have "s0 = snd (ensure_output_dir s)"
    by simp
  with assms(1) have "download_and_preprocess_image L now url s0 = (Inl e, s')"
    by (simp add: download_after_ensure)
  with s0 assms(2) show ?thesis
    unfolding handle_photo_request_def
    by (simp add: bind_io_def edit_text_def pure_io_def try_except_def)
qed

theorem handle_photo_falls_back_to_original_witness:
  "download_and_preprocess_image (demo_lib []) new_year ''https://example.org/photo.jpg'' empty_fs =
     (Inl (Cv2Error ''apply''),
      \<lparr>dirs = [''processed_images''],
       files = [(''processed_images/20250101_000005_original.png'', white_image),
                (''processed_images/20250101_000005_1_gray.png'', gray_image),
                (''processed_images/20250101_000005_21_threshold.png'', gray_image),
                (''processed_images/20250101_000005_2_threshold.png'', gray_image),
                (''processed_images/20250101_000005_3_denoised.png'', gray_image)]\<rparr>) \<and>
   chat_ok Preprocessing \<and>
   handle_photo_request (demo_lib []) chat_ok new_year ''https://example.org/photo.jpg'' empty_fs =
     (Inr (Read_url ''https://example.org/photo.jpg''),
      \<lparr>dirs = [''processed_images''],
       files = [(''processed_images/20250101_000005_original.png'', white_image),
                (''processed_images/20250101_000005_1_gray.png'', gray_image),
                (''processed_images/20250101_000005_21_threshold.png'', gray_image),
                (''processed_images/20250101_000005_2_threshold.png'', gray_image),
                (''processed_images/20250101_000005_3_denoised.png'', gray_image)]\<rparr>)"
proof -
  have c: "chat_ok Preprocessing"
    by (simp add: chat_ok_def)
  from handle_photo_falls_back_to_original [where chat = chat_ok, OF download_demo c]
    download_demo c
  show ?thesis
    by (simp add: chat_ok_def)
qed

text \<open>
  C8, counterexample. In a chat where the warning cannot be shown, a failure of the
  pipeline is not followed by a request for the original image: the fragment ends in
  the exception of the edit. And the orchestrator hands two different failures to its
  caller as two different exceptions.
\<close>

theorem handle_photo_without_fallback:
  "fst (handle_photo_request (demo_lib []) chat_without_warning new_year
     ''https://example.org/photo.jpg'' empty_fs) = Inl TelegramError \<and>
   fst (download_and_preprocess_image (demo_lib []) new_year ''https://example.org/photo.jpg''
     empty_fs) = Inl (Cv2Error ''apply'') \<and>
   fst (download_and_preprocess_image (demo_lib []) new_year ''https://example.org/page.html''
     empty_fs) = Inl (Cv2Error ''imwrite'')"
proof -
  have e: "ensure_output_dir empty_fs = (Inr ''processed_images'', \<lparr>dirs = [''processed_images''], files = []\<rparr>)"
    by (simp add: ensure_output_dir_def Let_def path_exists_def makedirs_def empty_fs_def)
  then have "\<lparr>dirs = [''processed_images''], files = []\<rparr> = snd (ensure_output_dir empty_fs)"
    by simp
  then have d: "download_and_preprocess_image (demo_lib []) new_year ''https://example.org/photo.jpg''
      \<lparr>dirs = [''processed_images''], files = []\<rparr> =
    download_and_preprocess_image (demo_lib []) new_year ''https://example.org/photo.jpg'' empty_fs"
    by (simp only: download_after_ensure)
  have "fst (handle_photo_request (demo_lib []) chat_without_warning new_year
     ''https://example.org/photo.jpg'' empty_fs) = Inl TelegramError"
    unfolding handle_photo_request_def
    by (simp add: bind_io_def edit_text_def pure_io_def try_except_def chat_without_warning_def e d
        download_demo)
  then show ?thesis
    by (simp add: download_demo download_demo_malformed)
qed

text \<open>
  C9. The claim is that the labels of the artifacts range over nine stages. The files
  written by a run on a decodable colour image are five, in the directory
  \<open>processed_images\<close> and with the timestamp of the clock in front: no file with the
  label \<open>4_enhanced\<close>, \<open>5_sharpened\<close>, \<open>6_dilated\<close> or \<open>7_final\<close> is written.
\<close>

theorem artifacts_of_a_run:
  "dirs (snd (download_and_preprocess_image (demo_lib []) new_year
      ''https://example.org/photo.jpg'' empty_fs)) = [''processed_images''] \<and>
   map fst (files (snd (download_and_preprocess_image (demo_lib []) new_year
      ''https://example.org/photo.jpg'' empty_fs))) =
     [''processed_images/20250101_000005_original.png'',
      ''processed_images/20250101_000005_1_gray.png'',
      ''processed_images/20250101_000005_21_threshold.png'',
      ''processed_images/20250101_000005_2_threshold.png'',
      ''processed_images/20250101_000005_3_denoised.png'']"
  by (simp add: download_demo)

end
